theory Spec2Isabelle
  imports Main "HOL-Library.Sublist"
begin

section \<open>The notebook CodeSprints/AutomaticDataDownloads.ipynb\<close>

text \<open>
  The notebook is a script of top-level statements over global variables. Its one piece
  of logic is the expression that builds download paths,
  \<^verbatim>\<open>filepaths = http_dir + dataset + "/" + lev_type + "/" + variable + time + file_type\<close>,
  evaluated once with \<^verbatim>\<open>time\<close> a \<^verbatim>\<open>str\<close> (line 384) and once with \<^verbatim>\<open>time\<close> a
  pandas \<^verbatim>\<open>Series\<close> of strings (line 454), and the local file name
  \<^verbatim>\<open>filename = variable + time + file_type\<close> (line 418).
\<close>

subsection \<open>Values\<close>

text \<open>
  The variables \<^verbatim>\<open>time\<close> and \<^verbatim>\<open>filepaths\<close> hold a \<^verbatim>\<open>str\<close> in one cell and a
  \<^verbatim>\<open>Series\<close> of \<^verbatim>\<open>str\<close> in another. A Series with the default index is the list of its
  values.
\<close>

datatype pyval = Str string | Series "string list"

text \<open>
  \<^verbatim>\<open>s + v\<close> for a \<^verbatim>\<open>str\<close> \<open>s\<close>: concatenation when \<open>v\<close> is a \<^verbatim>\<open>str\<close>; when \<open>v\<close> is a
  Series, pandas applies the addition to every element, with \<open>s\<close> on the left.
\<close>

fun str_add :: "string \<Rightarrow> pyval \<Rightarrow> pyval" where
  "str_add s (Str x) = Str (s @ x)"
| "str_add s (Series xs) = Series (map (\<lambda>x. s @ x) xs)"

text \<open>\<^verbatim>\<open>v + s\<close> for a \<^verbatim>\<open>str\<close> \<open>s\<close>: the same, with \<open>s\<close> on the right.\<close>

fun add_str :: "pyval \<Rightarrow> string \<Rightarrow> pyval" where
  "add_str (Str x) s = Str (x @ s)"
| "add_str (Series xs) s = Series (map (\<lambda>x. x @ s) xs)"

text \<open>\<^verbatim>\<open>range(a, b)\<close> as a list: \<open>a\<close>, \<open>a + 1\<close>, ... up to but excluding \<open>b\<close>.\<close>

definition py_range :: "int \<Rightarrow> int \<Rightarrow> int list" where
  "py_range a b = [a..b - 1]"

text \<open>\<^verbatim>\<open>str\<close> of an integer: its decimal digits, with a minus sign when negative.\<close>

definition digit_char :: "nat \<Rightarrow> char" where
  "digit_char d = ''0123456789'' ! d"

fun str_nat :: "nat \<Rightarrow> string" where
  "str_nat n = (if n < 10 then [digit_char n] else str_nat (n div 10) @ [digit_char (n mod 10)])"

declare str_nat.simps [simp del]

definition str_int :: "int \<Rightarrow> string" where
  "str_int i = (if i < 0 then CHR ''-'' # str_nat (nat (- i)) else str_nat (nat i))"

subsection \<open>The notebook's state\<close>

text \<open>
  The global variables the cells read and assign, the working directory of the process
  and what has been printed. The cells that call \<^verbatim>\<open>os.chdir\<close> and \<^verbatim>\<open>os.getcwd\<close> act
  on the process and the file system only; \<open>cwd\<close> stands for the state they leave. The five components of a path
  (\<open>http_dir\<close>, \<open>dataset\<close>, \<open>lev_type\<close>, \<open>variable\<close>, \<open>file_type\<close>) are what the
  specification calls the NamingTemplate (host, dataset, category, variablePrefix,
  suffix); \<open>time\<close> holds the token or the sequence of tokens.
\<close>

record notebook =
  cwd :: string
  http_dir :: string
  dataset :: string
  lev_type :: string
  variable :: string
  time :: pyval
  file_type :: string
  filepaths :: pyval
  url :: pyval
  filename :: pyval
  stdout :: "pyval list list"

text \<open>\<^verbatim>\<open>print(a, ...)\<close> adds one line, the values printed.\<close>

definition print :: "pyval list \<Rightarrow> notebook \<Rightarrow> notebook" where
  "print vs s = s\<lparr>stdout := stdout s @ [vs]\<rparr>"

subsection \<open>The statements\<close>

text \<open>
  The right-hand side of lines 384 and 454. Python adds from left to right: the first
  five operands are \<^verbatim>\<open>str\<close>, then \<^verbatim>\<open>time\<close> is added on the right of that string and
  \<^verbatim>\<open>file_type\<close> on the right of the result.
\<close>

definition filepaths_expr :: "notebook \<Rightarrow> pyval" where
  "filepaths_expr s =
     add_str
       (str_add (((((http_dir s @ dataset s) @ ''/'') @ lev_type s) @ ''/'') @ variable s)
          (time s))
       (file_type s)"

text \<open>The right-hand side of line 418.\<close>

definition filename_expr :: "notebook \<Rightarrow> pyval" where
  "filename_expr s = add_str (str_add (variable s) (time s)) (file_type s)"

text \<open>Lines 378 to 385: the path of the file of one year.\<close>

definition cell_one_year :: "notebook \<Rightarrow> notebook" where
  "cell_one_year s =
     (let s1 = s\<lparr>http_dir := ''https://downloads.psl.noaa.gov/Datasets/''\<rparr>;
          s2 = s1\<lparr>dataset := ''ncep.reanalysis.dailyavgs''\<rparr>;
          s3 = s2\<lparr>lev_type := ''surface''\<rparr>;
          s4 = s3\<lparr>variable := ''air.sig995.''\<rparr>;
          s5 = s4\<lparr>time := Str ''2010''\<rparr>;
          s6 = s5\<lparr>file_type := ''.nc''\<rparr>;
          s7 = s6\<lparr>filepaths := filepaths_expr s6\<rparr>
      in print [filepaths s7] s7)"

text \<open>
  Lines 417 and 418: the two assignments before the download. The call
  \<^verbatim>\<open>urllib.request.urlretrieve(url, filename)\<close> of line 419 acts on the network and the
  file system through the standard library and is not part of this development.
\<close>

definition cell_names :: "notebook \<Rightarrow> notebook" where
  "cell_names s =
     (let s1 = s\<lparr>url := filepaths s\<rparr>
      in s1\<lparr>filename := filename_expr s1\<rparr>)"

text \<open>
  Lines 452 to 455: the paths of five years. The Series of the integers of
  \<^verbatim>\<open>range(1965, 1970)\<close> is turned into a Series of strings by \<^verbatim>\<open>time.apply(str)\<close>.
\<close>

definition cell_five_years :: "notebook \<Rightarrow> notebook" where
  "cell_five_years s =
     (let years = py_range 1965 1970;
          s1 = s\<lparr>time := Series (map str_int years)\<rparr>;
          s2 = s1\<lparr>filepaths := filepaths_expr s1\<rparr>
      in print [filepaths s2] s2)"

subsection \<open>Notions used by the properties\<close>

text \<open>
  The text that follows the last \<open>/\<close> of a string (the whole string when it has none).
  This is a notion of strings, not of URLs: a \<open>?\<close> or a \<open>#\<close> is a character like any
  other here.
\<close>

definition after_last_slash :: "string \<Rightarrow> string" where
  "after_last_slash u = rev (takeWhile (\<lambda>c. c \<noteq> CHR ''/'') (rev u))"

text \<open>
  A notebook whose variables hold the constants of lines 379 to 383, with a given first
  component and a given \<^verbatim>\<open>time\<close>; nothing has been computed or printed yet.
\<close>

definition noaa :: "string \<Rightarrow> pyval \<Rightarrow> notebook" where
  "noaa host tm =
     \<lparr>cwd = ''project/data'', http_dir = host, dataset = ''ncep.reanalysis.dailyavgs'',
      lev_type = ''surface'', variable = ''air.sig995.'', time = tm, file_type = ''.nc'',
      filepaths = Str [], url = Str [], filename = Str [], stdout = []\<rparr>"

section \<open>Properties\<close>

subsection \<open>Helper facts\<close>

lemma filepaths_expr_Series:
  "time s = Series tokens \<Longrightarrow>
   filepaths_expr s =
     Series (map (\<lambda>token. http_dir s @ dataset s @ ''/'' @ lev_type s @ ''/'' @
                              variable s @ token @ file_type s) tokens)"
  by (simp add: filepaths_expr_def)

lemma filepaths_expr_Str:
  "time s = Str token \<Longrightarrow>
   filepaths_expr s =
     Str (http_dir s @ dataset s @ ''/'' @ lev_type s @ ''/'' @ variable s @ token @ file_type s)"
  by (simp add: filepaths_expr_def)

lemma filename_expr_Series:
  "time s = Series tokens \<Longrightarrow>
   filename_expr s = Series (map (\<lambda>token. variable s @ token @ file_type s) tokens)"
  by (simp add: filename_expr_def)

lemma filename_expr_Str:
  "time s = Str token \<Longrightarrow> filename_expr s = Str (variable s @ token @ file_type s)"
  by (simp add: filename_expr_def)

lemma five_tokens:
  "map str_int (py_range 1965 1970) = [''1965'', ''1966'', ''1967'', ''1968'', ''1969'']"
  by code_simp

lemma time_cell_five_years:
  "time (cell_five_years s) = Series [''1965'', ''1966'', ''1967'', ''1968'', ''1969'']"
  by (simp add: cell_five_years_def print_def Let_def five_tokens)

lemma filepaths_cell_five_years:
  "filepaths (cell_five_years s) =
     Series (map (\<lambda>token. http_dir s @ dataset s @ ''/'' @ lev_type s @ ''/'' @
                              variable s @ token @ file_type s)
               [''1965'', ''1966'', ''1967'', ''1968'', ''1969''])"
proof -
  have "filepaths (cell_five_years s) =
          filepaths_expr (s\<lparr>time := Series (map str_int (py_range 1965 1970))\<rparr>)"
    by (simp add: cell_five_years_def print_def Let_def)
  also have "\<dots> = filepaths_expr (s\<lparr>time := Series [''1965'', ''1966'', ''1967'', ''1968'', ''1969'']\<rparr>)"
    by (simp only: five_tokens)
  finally show ?thesis
    by (simp add: filepaths_expr_Series)
qed

lemma template_cell_five_years:
  "http_dir (cell_five_years s) = http_dir s" "dataset (cell_five_years s) = dataset s"
  "lev_type (cell_five_years s) = lev_type s" "variable (cell_five_years s) = variable s"
  "file_type (cell_five_years s) = file_type s" "cwd (cell_five_years s) = cwd s"
  by (simp_all add: cell_five_years_def print_def Let_def)

lemma template_cell_one_year:
  "http_dir (cell_one_year s) = ''https://downloads.psl.noaa.gov/Datasets/''"
  "dataset (cell_one_year s) = ''ncep.reanalysis.dailyavgs''"
  "lev_type (cell_one_year s) = ''surface''"
  "variable (cell_one_year s) = ''air.sig995.''"
  "file_type (cell_one_year s) = ''.nc''"
  "time (cell_one_year s) = Str ''2010''"
  by (simp_all add: cell_one_year_def print_def Let_def)

lemma filepaths_cell_one_year:
  "filepaths (cell_one_year s) = Str ''https://downloads.psl.noaa.gov/Datasets/ncep.reanalysis.dailyavgs/surface/air.sig995.2010.nc''"
  by (simp add: cell_one_year_def print_def Let_def filepaths_expr_def)

lemma distinct_wrap: "distinct tokens \<Longrightarrow> distinct (map (\<lambda>token::string. p @ token @ q) tokens)"
  by (simp add: distinct_map inj_on_def)

lemma after_last_slash_no_slash: "CHR ''/'' \<notin> set (after_last_slash u)"
  by (auto simp: after_last_slash_def dest: set_takeWhileD)

lemma after_last_slash_dir:
  assumes "CHR ''/'' \<notin> set n"
  shows "after_last_slash (d @ ''/'' @ n) = n"
proof -
  have "takeWhile (\<lambda>c. c \<noteq> CHR ''/'') (rev n @ CHR ''/'' # rev d) = rev n"
    using assms by (subst takeWhile_append2) auto
  then show ?thesis by (simp add: after_last_slash_def)
qed

lemma sublist_path:
  "sublist token (h @ d @ ''/'' @ l @ ''/'' @ v @ token @ f)"
  unfolding sublist_def
  by (rule exI [of _ "h @ d @ ''/'' @ l @ ''/'' @ v"], rule exI [of _ f]) simp

lemma sublist_same_length: "sublist t x \<Longrightarrow> length t = length x \<Longrightarrow> t = x"
  by (auto simp: sublist_def)

lemma suffix_last_mem:
  assumes "suffix a p" "a \<noteq> []"
  shows "last p \<in> set a"
proof -
  from assms obtain zs where "p = zs @ a" by (auto simp: suffix_def)
  with assms(2) have "last p = last a" by simp
  with assms(2) show ?thesis by simp
qed

lemma prefix_hd_mem:
  assumes "prefix b q" "b \<noteq> []"
  shows "q \<noteq> [] \<and> hd q \<in> set b"
proof -
  from assms obtain zs where "q = b @ zs" by (auto simp: prefix_def)
  with assms(2) show ?thesis by (cases b) auto
qed

lemma sublist_before_suffix:
  assumes "sublist t (x @ q)" and "\<not> sublist t q" and "q = [] \<or> hd q \<notin> set t"
  shows "sublist t x"
proof -
  from assms(1) consider "sublist t x" | "sublist t q"
    | a b where "t = a @ b" "suffix a x" "prefix b q"
    by (auto simp: sublist_append)
  then show ?thesis
  proof cases
    case 1 then show ?thesis .
  next
    case 2 with assms(2) show ?thesis by simp
  next
    case 3
    show ?thesis
    proof (cases "b = []")
      case True
      with 3 show ?thesis by simp
    next
      case False
      with 3(3) have "q \<noteq> [] \<and> hd q \<in> set b" by (rule prefix_hd_mem)
      with 3(1) assms(3) show ?thesis by simp
    qed
  qed
qed

lemma sublist_between:
  assumes "sublist t (p @ x @ q)" and "\<not> sublist t p" and "\<not> sublist t q"
    and "last p \<notin> set t" and "q = [] \<or> hd q \<notin> set t"
  shows "sublist t x"
proof -
  from assms(1) consider "sublist t p" | "sublist t (x @ q)"
    | a b where "t = a @ b" "suffix a p" "prefix b (x @ q)"
    by (auto simp: sublist_append)
  then show ?thesis
  proof cases
    case 1 with assms(2) show ?thesis by simp
  next
    case 2 then show ?thesis using assms(3,5) by (rule sublist_before_suffix)
  next
    case 3
    show ?thesis
    proof (cases "a = []")
      case True
      with 3 have "sublist t (x @ q)" by simp
      then show ?thesis using assms(3,5) by (rule sublist_before_suffix)
    next
      case False
      with 3(2) have "last p \<in> set a" by (rule suffix_last_mem)
      with 3(1) assms(4) show ?thesis by simp
    qed
  qed
qed

lemma subset_disjoint_Nil:
  assumes "set c \<subseteq> set a" and "set c \<inter> set a = {}"
  shows "c = []"
proof -
  from assms(1) have "set c \<inter> set a = set c" by (rule inf.absorb1)
  with assms(2) show ?thesis by simp
qed

lemma sublist_skip_disjoint:
  assumes "sublist t (a @ b)" and "set t \<inter> set a = {}" and "t \<noteq> []"
  shows "sublist t b"
proof -
  from assms(1) consider "sublist t a" | "sublist t b"
    | c d where "t = c @ d" "suffix c a" "prefix d b"
    by (auto simp: sublist_append)
  then show ?thesis
  proof cases
    case 1
    then have "set t \<subseteq> set a" by (rule set_mono_sublist)
    then have "t = []" using assms(2) by (rule subset_disjoint_Nil)
    with assms(3) show ?thesis by simp
  next
    case 2 then show ?thesis .
  next
    case 3
    from 3(2) have "set c \<subseteq> set a" by (rule set_mono_suffix)
    moreover from 3(1) assms(2) have "set c \<inter> set a = {}" by (simp add: Int_Un_distrib2)
    ultimately have "c = []" by (rule subset_disjoint_Nil)
    with 3 show ?thesis by simp
  qed
qed

lemma sublist_path_token:
  assumes "sublist t (h @ d @ ''/'' @ l @ ''/'' @ v @ x @ f)"
    and "\<not> sublist t (h @ d @ ''/'' @ l @ ''/'' @ v)" and "\<not> sublist t f"
    and "last (CHR ''/'' # v) \<notin> set t" and "f = [] \<or> hd f \<notin> set t"
  shows "sublist t x"
proof -
  let ?p = "h @ d @ ''/'' @ l @ ''/'' @ v"
  have "?p = (h @ d @ ''/'' @ l) @ (CHR ''/'' # v)" by simp
  then have "last ?p = last (CHR ''/'' # v)" by (simp only: last_append) simp
  with assms(4) have l: "last ?p \<notin> set t" by simp
  from assms(1) have "sublist t (?p @ x @ f)" by simp
  then show ?thesis using assms(2,3) l assms(5) by (rule sublist_between)
qed

lemma no_digit_before_995:
  "set ''0123456789'' \<inter>
   set ''https://downloads.psl.noaa.gov/Datasets/ncep.reanalysis.dailyavgs/surface/air.sig'' = {}"
  by simp

lemma four_digits_not_in_fixed_parts:
  assumes "length t = 4" and "set t \<subseteq> set ''0123456789''"
  shows "\<not> sublist t (''https://downloads.psl.noaa.gov/Datasets/'' @ ''ncep.reanalysis.dailyavgs'' @ ''/'' @ ''surface'' @ ''/'' @ ''air.sig995.'')"
    and "\<not> sublist t ''.nc''"
    and "last (CHR ''/'' # ''air.sig995.'') \<notin> set t"
    and "hd ''.nc'' \<notin> set t"
proof -
  from assms(1) have ne: "t \<noteq> []" by auto
  have dot: "CHR ''.'' \<notin> set t" using assms(2) by auto
  show "\<not> sublist t (''https://downloads.psl.noaa.gov/Datasets/'' @ ''ncep.reanalysis.dailyavgs'' @ ''/'' @ ''surface'' @ ''/'' @ ''air.sig995.'')"
  proof
    assume "sublist t (''https://downloads.psl.noaa.gov/Datasets/'' @ ''ncep.reanalysis.dailyavgs'' @ ''/'' @ ''surface'' @ ''/'' @ ''air.sig995.'')"
    then have "sublist t (''https://downloads.psl.noaa.gov/Datasets/ncep.reanalysis.dailyavgs/surface/air.sig'' @ ''995.'')"
      by simp
    moreover from assms(2) no_digit_before_995
    have "set t \<inter> set ''https://downloads.psl.noaa.gov/Datasets/ncep.reanalysis.dailyavgs/surface/air.sig'' = {}"
      by blast
    ultimately have "sublist t ''995.''" using ne by (rule sublist_skip_disjoint)
    then have "t = ''995.''" using assms(1) by (simp add: sublist_same_length)
    with dot show False by simp
  qed
  show "\<not> sublist t ''.nc''"
  proof
    assume "sublist t ''.nc''"
    then have "length t \<le> length ''.nc''" by (rule sublist_length_le)
    with assms(1) show False by simp
  qed
  from dot show "last (CHR ''/'' # ''air.sig995.'') \<notin> set t" by simp
  from dot show "hd ''.nc'' \<notin> set t" by simp
qed

lemma same_length_tokens_apart:
  assumes "distinct tokens" and "\<forall>t\<in>set tokens. length t = n"
    and "i < length tokens" "j < length tokens" "i \<noteq> j"
  shows "\<not> sublist (tokens ! j) (tokens ! i)"
proof
  assume "sublist (tokens ! j) (tokens ! i)"
  moreover from assms(2,3,4) have "length (tokens ! j) = length (tokens ! i)" by simp
  ultimately have "tokens ! j = tokens ! i" by (rule sublist_same_length)
  with assms(1,3,4) have "j = i" by (simp add: nth_eq_iff_index_eq)
  with assms(5) show False by simp
qed

lemma urls_only_own_token:
  assumes apart: "\<forall>i<length tokens. \<forall>j<length tokens. i \<noteq> j \<longrightarrow> \<not> sublist (tokens ! j) (tokens ! i)"
    and fixed: "\<forall>t\<in>set tokens.
        \<not> sublist t (h @ d @ ''/'' @ l @ ''/'' @ v) \<and> \<not> sublist t f \<and>
        last (CHR ''/'' # v) \<notin> set t \<and> (f = [] \<or> hd f \<notin> set t)"
    and i: "i < length tokens" and j: "j < length tokens" and ij: "i \<noteq> j"
  shows "\<not> sublist (tokens ! j) (map (\<lambda>token. h @ d @ ''/'' @ l @ ''/'' @ v @ token @ f) tokens ! i)"
proof
  assume "sublist (tokens ! j) (map (\<lambda>token. h @ d @ ''/'' @ l @ ''/'' @ v @ token @ f) tokens ! i)"
  with i have a: "sublist (tokens ! j) (h @ d @ ''/'' @ l @ ''/'' @ v @ tokens ! i @ f)"
    by simp
  from j have "tokens ! j \<in> set tokens" by simp
  with fixed have b: "\<not> sublist (tokens ! j) (h @ d @ ''/'' @ l @ ''/'' @ v)"
      "\<not> sublist (tokens ! j) f" "last (CHR ''/'' # v) \<notin> set (tokens ! j)"
      "f = [] \<or> hd f \<notin> set (tokens ! j)"
    by blast+
  from a b have "sublist (tokens ! j) (tokens ! i)" by (rule sublist_path_token)
  with apart i j ij show False by blast
qed

lemma path_is_dir_plus_name:
  fixes h d l v f token :: string
  defines "u \<equiv> h @ d @ ''/'' @ l @ ''/'' @ v @ token @ f" and "n \<equiv> v @ token @ f"
  shows "u = (h @ d @ ''/'' @ l @ ''/'') @ n \<and> suffix n u \<and>
         (after_last_slash u = n \<longleftrightarrow> CHR ''/'' \<notin> set n)"
proof -
  have 1: "u = (h @ d @ ''/'' @ l @ ''/'') @ n"
    by (simp add: u_def n_def)
  then have 2: "suffix n u"
    unfolding suffix_def by blast
  have "u = (h @ d @ ''/'' @ l) @ ''/'' @ n"
    by (simp add: u_def n_def)
  then have 3: "after_last_slash u = n \<longleftrightarrow> CHR ''/'' \<notin> set n"
    using after_last_slash_dir [of n "h @ d @ ''/'' @ l"] after_last_slash_no_slash [of u]
    by auto
  from 1 2 3 show ?thesis by blast
qed

subsection \<open>One path per token\<close>

text \<open>
  C1. What the specification calls \<open>buildPaths\<close> is line 454 with the tokens in \<open>time\<close>.
  For every template and every sequence of tokens the result is a Series with one path
  per token, in the order of the tokens, each path being
  \<open>http_dir + dataset + "/" + lev_type + "/" + variable + token + file_type\<close>; the
  result is as long as the sequence of tokens, and no tokens give no paths.
\<close>

theorem buildPaths_one_per_token:
  "(\<exists>urls. filepaths_expr (s\<lparr>time := Series tokens\<rparr>) = Series urls \<and>
      length urls = length tokens \<and>
      urls = map (\<lambda>token. http_dir s @ dataset s @ ''/'' @ lev_type s @ ''/'' @
                              variable s @ token @ file_type s) tokens) \<and>
   filepaths_expr (s\<lparr>time := Series []\<rparr>) = Series []"
  by (simp add: filepaths_expr_Series)

subsection \<open>The example of the specification\<close>

text \<open>
  C2, as amended. With the first component \<open>https://downloads.psl.noaa.gov/Datasets/\<close>,
  which is the value line 378 gives \<open>http_dir\<close>, and the other components and the
  tokens \<open>1965\<close>, \<open>1966\<close> of the example, line 454 gives exactly the two paths of the
  example and line 418 the two local names.
\<close>

theorem example_paths_and_names:
  "filepaths_expr (noaa ''https://downloads.psl.noaa.gov/Datasets/'' (Series [''1965'', ''1966''])) =
     Series [''https://downloads.psl.noaa.gov/Datasets/ncep.reanalysis.dailyavgs/surface/air.sig995.1965.nc'',
             ''https://downloads.psl.noaa.gov/Datasets/ncep.reanalysis.dailyavgs/surface/air.sig995.1966.nc''] \<and>
   filename_expr (noaa ''https://downloads.psl.noaa.gov/Datasets/'' (Series [''1965'', ''1966''])) =
     Series [''air.sig995.1965.nc'', ''air.sig995.1966.nc''] \<and>
   http_dir (cell_one_year s) = ''https://downloads.psl.noaa.gov/Datasets/''"
  by (simp add: noaa_def filepaths_expr_def filename_expr_def template_cell_one_year)

text \<open>
  With the bare host name \<open>downloads.psl.noaa.gov\<close> as first component, as the example
  is written, the paths are not those of the example: nothing adds the scheme or
  \<open>/Datasets/\<close>.
\<close>

theorem example_host_counterexample:
  "filepaths_expr (noaa ''downloads.psl.noaa.gov'' (Series [''1965'', ''1966''])) \<noteq>
     Series [''https://downloads.psl.noaa.gov/Datasets/ncep.reanalysis.dailyavgs/surface/air.sig995.1965.nc'',
             ''https://downloads.psl.noaa.gov/Datasets/ncep.reanalysis.dailyavgs/surface/air.sig995.1966.nc'']"
  by (simp add: noaa_def filepaths_expr_def)

subsection \<open>A path contains its token\<close>

text \<open>
  C3, as amended. For every template and every sequence of tokens there are as many paths
  as tokens and the path at each index contains the token at that index. No path
  contains the token of another index provided that
  no token of the sequence occurs in a token at another index,
  no token occurs in the fixed text before the token
  (\<open>http_dir + dataset + "/" + lev_type + "/" + variable\<close>) or in \<open>file_type\<close>, and
  the character just before the token (the last of \<open>variable\<close>, or the \<open>/\<close> when
  \<open>variable\<close> is empty) and the first character of \<open>file_type\<close>, if any, occur in no
  token. With the constants of lines 378 to 383 this is so for every sequence of pairwise
  distinct tokens of four digits: a path then contains the token of an index exactly
  when it is its own.
\<close>

theorem buildPaths_contains_own_token:
  "(\<exists>urls. filepaths_expr (s\<lparr>time := Series tokens\<rparr>) = Series urls \<and>
      length urls = length tokens \<and>
      (\<forall>i<length tokens. sublist (tokens ! i) (urls ! i)) \<and>
      ((\<forall>i<length tokens. \<forall>j<length tokens. i \<noteq> j \<longrightarrow> \<not> sublist (tokens ! j) (tokens ! i)) \<and>
       (\<forall>t\<in>set tokens.
          \<not> sublist t (http_dir s @ dataset s @ ''/'' @ lev_type s @ ''/'' @ variable s) \<and>
          \<not> sublist t (file_type s) \<and>
          last (CHR ''/'' # variable s) \<notin> set t \<and>
          (file_type s = [] \<or> hd (file_type s) \<notin> set t))
       \<longrightarrow> (\<forall>i<length tokens. \<forall>j<length tokens. i \<noteq> j \<longrightarrow> \<not> sublist (tokens ! j) (urls ! i)))) \<and>
   (distinct years \<and> (\<forall>t\<in>set years. length t = 4 \<and> set t \<subseteq> set ''0123456789'') \<longrightarrow>
      (\<exists>urls. filepaths_expr ((cell_one_year r)\<lparr>time := Series years\<rparr>) = Series urls \<and>
         length urls = length years \<and>
         (\<forall>i<length years. \<forall>j<length years. sublist (years ! j) (urls ! i) \<longleftrightarrow> i = j)))"
proof (intro conjI impI)
  let ?urls = "map (\<lambda>token. http_dir s @ dataset s @ ''/'' @ lev_type s @ ''/'' @
                              variable s @ token @ file_type s) tokens"
  have 1: "filepaths_expr (s\<lparr>time := Series tokens\<rparr>) = Series ?urls"
    by (simp add: filepaths_expr_Series)
  have 2: "length ?urls = length tokens" by simp
  have 3: "\<forall>i<length tokens. sublist (tokens ! i) (?urls ! i)"
    using sublist_path [of _ "http_dir s" "dataset s" "lev_type s" "variable s" "file_type s"]
    by simp
  have 4: "(\<forall>i<length tokens. \<forall>j<length tokens. i \<noteq> j \<longrightarrow> \<not> sublist (tokens ! j) (tokens ! i)) \<and>
       (\<forall>t\<in>set tokens.
          \<not> sublist t (http_dir s @ dataset s @ ''/'' @ lev_type s @ ''/'' @ variable s) \<and>
          \<not> sublist t (file_type s) \<and>
          last (CHR ''/'' # variable s) \<notin> set t \<and>
          (file_type s = [] \<or> hd (file_type s) \<notin> set t))
       \<longrightarrow> (\<forall>i<length tokens. \<forall>j<length tokens. i \<noteq> j \<longrightarrow> \<not> sublist (tokens ! j) (?urls ! i))"
    by (intro impI allI, elim conjE) (rule urls_only_own_token)
  from 1 2 3 4 show "\<exists>urls. filepaths_expr (s\<lparr>time := Series tokens\<rparr>) = Series urls \<and>
      length urls = length tokens \<and>
      (\<forall>i<length tokens. sublist (tokens ! i) (urls ! i)) \<and>
      ((\<forall>i<length tokens. \<forall>j<length tokens. i \<noteq> j \<longrightarrow> \<not> sublist (tokens ! j) (tokens ! i)) \<and>
       (\<forall>t\<in>set tokens.
          \<not> sublist t (http_dir s @ dataset s @ ''/'' @ lev_type s @ ''/'' @ variable s) \<and>
          \<not> sublist t (file_type s) \<and>
          last (CHR ''/'' # variable s) \<notin> set t \<and>
          (file_type s = [] \<or> hd (file_type s) \<notin> set t))
       \<longrightarrow> (\<forall>i<length tokens. \<forall>j<length tokens. i \<noteq> j \<longrightarrow> \<not> sublist (tokens ! j) (urls ! i)))"
    by blast
next
  assume "distinct years \<and> (\<forall>t\<in>set years. length t = 4 \<and> set t \<subseteq> set ''0123456789'')"
  then have d: "distinct years" and l: "\<forall>t\<in>set years. length t = 4"
    and g: "\<forall>t\<in>set years. set t \<subseteq> set ''0123456789''"
    by blast+
  let ?h = "''https://downloads.psl.noaa.gov/Datasets/''" and ?d = "''ncep.reanalysis.dailyavgs''"
  let ?l = "''surface''" and ?v = "''air.sig995.''" and ?f = "''.nc''"
  let ?urls = "map (\<lambda>token. ?h @ ?d @ ''/'' @ ?l @ ''/'' @ ?v @ token @ ?f) years"
  have 1: "filepaths_expr ((cell_one_year r)\<lparr>time := Series years\<rparr>) = Series ?urls"
    by (simp add: filepaths_expr_Series template_cell_one_year)
  have apart: "\<forall>i<length years. \<forall>j<length years. i \<noteq> j \<longrightarrow> \<not> sublist (years ! j) (years ! i)"
    using same_length_tokens_apart [OF d l] by blast
  have fixed: "\<forall>t\<in>set years.
        \<not> sublist t (?h @ ?d @ ''/'' @ ?l @ ''/'' @ ?v) \<and> \<not> sublist t ?f \<and>
        last (CHR ''/'' # ?v) \<notin> set t \<and> (?f = [] \<or> hd ?f \<notin> set t)"
  proof
    fix t assume "t \<in> set years"
    with l g have "length t = 4" "set t \<subseteq> set ''0123456789''" by blast+
    from four_digits_not_in_fixed_parts [OF this]
    show "\<not> sublist t (?h @ ?d @ ''/'' @ ?l @ ''/'' @ ?v) \<and> \<not> sublist t ?f \<and>
        last (CHR ''/'' # ?v) \<notin> set t \<and> (?f = [] \<or> hd ?f \<notin> set t)"
      by blast
  qed
  have 3: "\<forall>i<length years. \<forall>j<length years. sublist (years ! j) (?urls ! i) \<longleftrightarrow> i = j"
  proof (intro allI impI)
    fix i j assume i: "i < length years" and j: "j < length years"
    show "sublist (years ! j) (?urls ! i) \<longleftrightarrow> i = j"
    proof
      assume s: "sublist (years ! j) (?urls ! i)"
      show "i = j"
      proof (rule ccontr)
        assume "i \<noteq> j"
        with apart fixed i j have "\<not> sublist (years ! j) (?urls ! i)"
          by (rule urls_only_own_token)
        with s show False by simp
      qed
    next
      assume "i = j"
      with i show "sublist (years ! j) (?urls ! i)"
        using sublist_path [of "years ! i" ?h ?d ?l ?v ?f] by simp
    qed
  qed
  have "length ?urls = length years" by simp
  with 1 3 show "\<exists>urls. filepaths_expr ((cell_one_year r)\<lparr>time := Series years\<rparr>) = Series urls \<and>
         length urls = length years \<and>
         (\<forall>i<length years. \<forall>j<length years. sublist (years ! j) (urls ! i) \<longleftrightarrow> i = j)"
    by blast
qed

text \<open>
  Both parts at concrete inputs, with the constants of lines 378 to 383: the tokens
  \<open>1965\<close>, \<open>1966\<close> for the first, the five years of line 452 for the second.
\<close>

theorem buildPaths_contains_own_token_witness:
  "sublist ''1965'' ''https://downloads.psl.noaa.gov/Datasets/ncep.reanalysis.dailyavgs/surface/air.sig995.1965.nc'' \<and>
   sublist ''1966'' ''https://downloads.psl.noaa.gov/Datasets/ncep.reanalysis.dailyavgs/surface/air.sig995.1966.nc'' \<and>
   \<not> sublist ''1966'' ''https://downloads.psl.noaa.gov/Datasets/ncep.reanalysis.dailyavgs/surface/air.sig995.1965.nc'' \<and>
   \<not> sublist ''1965'' ''https://downloads.psl.noaa.gov/Datasets/ncep.reanalysis.dailyavgs/surface/air.sig995.1966.nc'' \<and>
   \<not> sublist ''1969'' ''https://downloads.psl.noaa.gov/Datasets/ncep.reanalysis.dailyavgs/surface/air.sig995.1965.nc'' \<and>
   \<not> sublist ''1965'' ''https://downloads.psl.noaa.gov/Datasets/ncep.reanalysis.dailyavgs/surface/air.sig995.1969.nc''"
proof -
  let ?s = "noaa ''https://downloads.psl.noaa.gov/Datasets/'' (Series [''1965'', ''1966''])"
  let ?r = "noaa [] (Str [])"
  let ?two = "[''1965'', ''1966'']"
  let ?five = "[''1965'', ''1966'', ''1967'', ''1968'', ''1969'']"
  note th = buildPaths_contains_own_token
    [where s = ?s and tokens = ?two and r = ?r and years = ?five]
  have e: "?s\<lparr>time := Series ?two\<rparr> = ?s"
    by (simp add: noaa_def)
  have c: "http_dir ?s = ''https://downloads.psl.noaa.gov/Datasets/''"
    "dataset ?s = ''ncep.reanalysis.dailyavgs''" "lev_type ?s = ''surface''"
    "variable ?s = ''air.sig995.''" "file_type ?s = ''.nc''"
    by (simp_all add: noaa_def)
  have p: "filepaths_expr ?s =
      Series [''https://downloads.psl.noaa.gov/Datasets/ncep.reanalysis.dailyavgs/surface/air.sig995.1965.nc'',
              ''https://downloads.psl.noaa.gov/Datasets/ncep.reanalysis.dailyavgs/surface/air.sig995.1966.nc'']"
    by (simp add: noaa_def filepaths_expr_def)
  have apart: "\<forall>i<length ?two. \<forall>j<length ?two. i \<noteq> j \<longrightarrow> \<not> sublist (?two ! j) (?two ! i)"
    by (rule allI impI)+ (rule same_length_tokens_apart [where n = 4], simp_all)
  have fixed: "\<forall>t\<in>set ?two.
          \<not> sublist t (http_dir ?s @ dataset ?s @ ''/'' @ lev_type ?s @ ''/'' @ variable ?s) \<and>
          \<not> sublist t (file_type ?s) \<and>
          last (CHR ''/'' # variable ?s) \<notin> set t \<and>
          (file_type ?s = [] \<or> hd (file_type ?s) \<notin> set t)"
    unfolding c
  proof
    fix t :: string assume "t \<in> set ?two"
    then have "length t = 4" "set t \<subseteq> set ''0123456789''" by auto
    note f4 = four_digits_not_in_fixed_parts [OF this]
    show "\<not> sublist t (''https://downloads.psl.noaa.gov/Datasets/'' @ ''ncep.reanalysis.dailyavgs'' @ ''/'' @ ''surface'' @ ''/'' @ ''air.sig995.'') \<and>
          \<not> sublist t ''.nc'' \<and>
          last (CHR ''/'' # ''air.sig995.'') \<notin> set t \<and>
          (''.nc'' = [] \<or> hd ''.nc'' \<notin> set t)"
      by (intro conjI disjI2) (rule f4)+
  qed
  from th [THEN conjunct1, unfolded e]
  obtain urls where u0: "filepaths_expr ?s = Series urls \<and>
      length urls = length ?two \<and>
      (\<forall>i<length ?two. sublist (?two ! i) (urls ! i)) \<and>
      ((\<forall>i<length ?two. \<forall>j<length ?two. i \<noteq> j \<longrightarrow> \<not> sublist (?two ! j) (?two ! i)) \<and>
       (\<forall>t\<in>set ?two.
          \<not> sublist t (http_dir ?s @ dataset ?s @ ''/'' @ lev_type ?s @ ''/'' @ variable ?s) \<and>
          \<not> sublist t (file_type ?s) \<and>
          last (CHR ''/'' # variable ?s) \<notin> set t \<and>
          (file_type ?s = [] \<or> hd (file_type ?s) \<notin> set t))
       \<longrightarrow> (\<forall>i<length ?two. \<forall>j<length ?two. i \<noteq> j \<longrightarrow> \<not> sublist (?two ! j) (urls ! i)))" ..
  note u = u0 [THEN conjunct1] u0 [THEN conjunct2, THEN conjunct2, THEN conjunct1]
    u0 [THEN conjunct2, THEN conjunct2, THEN conjunct2]
  have other: "\<forall>i<length ?two. \<forall>j<length ?two. i \<noteq> j \<longrightarrow> \<not> sublist (?two ! j) (urls ! i)"
    by (rule mp [OF u(3)]) (rule conjI [OF apart fixed])
  from u(1) p have urls:
    "urls = [''https://downloads.psl.noaa.gov/Datasets/ncep.reanalysis.dailyavgs/surface/air.sig995.1965.nc'',
             ''https://downloads.psl.noaa.gov/Datasets/ncep.reanalysis.dailyavgs/surface/air.sig995.1966.nc'']"
    by simp
  have a: "sublist ''1965'' ''https://downloads.psl.noaa.gov/Datasets/ncep.reanalysis.dailyavgs/surface/air.sig995.1965.nc''"
    "sublist ''1966'' ''https://downloads.psl.noaa.gov/Datasets/ncep.reanalysis.dailyavgs/surface/air.sig995.1966.nc''"
    using u(2) [rule_format, of 0] u(2) [rule_format, of 1] unfolding urls by simp_all
  have b: "\<not> sublist ''1966'' ''https://downloads.psl.noaa.gov/Datasets/ncep.reanalysis.dailyavgs/surface/air.sig995.1965.nc''"
    "\<not> sublist ''1965'' ''https://downloads.psl.noaa.gov/Datasets/ncep.reanalysis.dailyavgs/surface/air.sig995.1966.nc''"
    using other [rule_format, of 0 1] other [rule_format, of 1 0] unfolding urls by simp_all
  have y: "distinct ?five \<and> (\<forall>t\<in>set ?five. length t = 4 \<and> set t \<subseteq> set ''0123456789'')"
    by simp
  from th [THEN conjunct2, THEN mp, OF y]
  obtain paths where f0: "filepaths_expr ((cell_one_year ?r)\<lparr>time := Series ?five\<rparr>) = Series paths \<and>
      length paths = length ?five \<and>
      (\<forall>i<length ?five. \<forall>j<length ?five. sublist (?five ! j) (paths ! i) \<longleftrightarrow> i = j)" ..
  note f = f0 [THEN conjunct1] f0 [THEN conjunct2, THEN conjunct2]
  have "filepaths_expr ((cell_one_year ?r)\<lparr>time := Series ?five\<rparr>) =
      Series (map (\<lambda>token. ''https://downloads.psl.noaa.gov/Datasets/ncep.reanalysis.dailyavgs/surface/air.sig995.'' @ token @ ''.nc'') ?five)"
    by (simp add: filepaths_expr_Series template_cell_one_year)
  with f(1) have paths: "paths =
      map (\<lambda>token. ''https://downloads.psl.noaa.gov/Datasets/ncep.reanalysis.dailyavgs/surface/air.sig995.'' @ token @ ''.nc'') ?five"
    by simp
  have d: "\<not> sublist ''1969'' ''https://downloads.psl.noaa.gov/Datasets/ncep.reanalysis.dailyavgs/surface/air.sig995.1965.nc''"
    "\<not> sublist ''1965'' ''https://downloads.psl.noaa.gov/Datasets/ncep.reanalysis.dailyavgs/surface/air.sig995.1969.nc''"
    using f(2) [rule_format, of 0 4] f(2) [rule_format, of 4 0] unfolding paths by simp_all
  show ?thesis by (intro conjI) (rule a b d)+
qed

text \<open>
  In general a path can contain the token of another index: the token \<open>995\<close> occurs in
  the component \<open>air.sig995.\<close>, so in the path of every other token.
\<close>

theorem other_token_counterexample:
  "filepaths_expr (noaa ''https://downloads.psl.noaa.gov/Datasets/'' (Series [''1965'', ''995''])) =
     Series [''https://downloads.psl.noaa.gov/Datasets/ncep.reanalysis.dailyavgs/surface/air.sig995.1965.nc'',
             ''https://downloads.psl.noaa.gov/Datasets/ncep.reanalysis.dailyavgs/surface/air.sig995.995.nc''] \<and>
   sublist ''995'' ''https://downloads.psl.noaa.gov/Datasets/ncep.reanalysis.dailyavgs/surface/air.sig995.1965.nc''"
proof
  show "filepaths_expr (noaa ''https://downloads.psl.noaa.gov/Datasets/'' (Series [''1965'', ''995''])) =
     Series [''https://downloads.psl.noaa.gov/Datasets/ncep.reanalysis.dailyavgs/surface/air.sig995.1965.nc'',
             ''https://downloads.psl.noaa.gov/Datasets/ncep.reanalysis.dailyavgs/surface/air.sig995.995.nc'']"
    by (simp add: noaa_def filepaths_expr_def)
  show "sublist ''995'' ''https://downloads.psl.noaa.gov/Datasets/ncep.reanalysis.dailyavgs/surface/air.sig995.1965.nc''"
    by code_simp
qed

subsection \<open>No hidden input\<close>

text \<open>
  C4. The paths are a function of the five components and \<open>time\<close> alone, and the local
  name of \<open>variable\<close>, \<open>file_type\<close> and \<open>time\<close> alone: two states of the notebook that
  agree on these give the same value, whatever the working directory, the output so far
  and the other variables are.
\<close>

theorem buildPaths_depends_on_inputs_only:
  "(http_dir s = http_dir s' \<and> dataset s = dataset s' \<and> lev_type s = lev_type s' \<and>
    variable s = variable s' \<and> file_type s = file_type s' \<and> time s = time s'
      \<longrightarrow> filepaths_expr s = filepaths_expr s') \<and>
   (variable s = variable s' \<and> file_type s = file_type s' \<and> time s = time s'
      \<longrightarrow> filename_expr s = filename_expr s')"
  by (simp add: filepaths_expr_def filename_expr_def)

text \<open>Two states that differ in working directory and output.\<close>

theorem buildPaths_depends_on_inputs_only_witness:
  "cwd (noaa ''https://downloads.psl.noaa.gov/Datasets/'' (Series [''1965'', ''1966''])) \<noteq>
     cwd (((print [Str ''1965''] (noaa ''https://downloads.psl.noaa.gov/Datasets/'' (Series [''1965'', ''1966''])))\<lparr>cwd := ''project/misc''\<rparr>)) \<and>
   stdout (noaa ''https://downloads.psl.noaa.gov/Datasets/'' (Series [''1965'', ''1966''])) \<noteq>
     stdout (((print [Str ''1965''] (noaa ''https://downloads.psl.noaa.gov/Datasets/'' (Series [''1965'', ''1966''])))\<lparr>cwd := ''project/misc''\<rparr>)) \<and>
   filepaths_expr (noaa ''https://downloads.psl.noaa.gov/Datasets/'' (Series [''1965'', ''1966''])) =
     filepaths_expr (((print [Str ''1965''] (noaa ''https://downloads.psl.noaa.gov/Datasets/'' (Series [''1965'', ''1966''])))\<lparr>cwd := ''project/misc''\<rparr>)) \<and>
   filename_expr (noaa ''https://downloads.psl.noaa.gov/Datasets/'' (Series [''1965'', ''1966''])) =
     filename_expr (((print [Str ''1965''] (noaa ''https://downloads.psl.noaa.gov/Datasets/'' (Series [''1965'', ''1966''])))\<lparr>cwd := ''project/misc''\<rparr>))"
proof -
  let ?a = "noaa ''https://downloads.psl.noaa.gov/Datasets/'' (Series [''1965'', ''1966''])"
  let ?b = "(print [Str ''1965''] ?a)\<lparr>cwd := ''project/misc''\<rparr>"
  have h: "http_dir ?a = http_dir ?b" "dataset ?a = dataset ?b" "lev_type ?a = lev_type ?b"
    "variable ?a = variable ?b" "file_type ?a = file_type ?b" "time ?a = time ?b"
    by (simp_all add: print_def)
  have d: "cwd ?a \<noteq> cwd ?b" "stdout ?a \<noteq> stdout ?b"
    by (simp_all add: print_def noaa_def)
  from buildPaths_depends_on_inputs_only [of ?a ?b] h
  have "filepaths_expr ?a = filepaths_expr ?b" "filename_expr ?a = filename_expr ?b"
    by blast+
  with d show ?thesis by blast
qed

subsection \<open>A path ends with its local name\<close>

text \<open>
  C9, as amended. For every token, the path is the directory prefix
  \<open>http_dir + dataset + "/" + lev_type + "/"\<close> followed by the local name
  \<open>variable + token + file_type\<close>, so the path ends with the local name; and the local
  name is the text that follows the last \<open>/\<close> of the path exactly when the local name
  contains no \<open>/\<close>. This holds for a single token (lines 384 and 418) and at every index
  of a Series of tokens.
\<close>

theorem url_is_directory_plus_filename:
  "(\<exists>u n. filepaths_expr (s\<lparr>time := Str token\<rparr>) = Str u \<and>
      filename_expr (s\<lparr>time := Str token\<rparr>) = Str n \<and>
      n = variable s @ token @ file_type s \<and>
      u = (http_dir s @ dataset s @ ''/'' @ lev_type s @ ''/'') @ n \<and> suffix n u \<and>
      (after_last_slash u = n \<longleftrightarrow> CHR ''/'' \<notin> set n)) \<and>
   (\<exists>us ns. filepaths_expr (s\<lparr>time := Series tokens\<rparr>) = Series us \<and>
      filename_expr (s\<lparr>time := Series tokens\<rparr>) = Series ns \<and>
      length us = length tokens \<and> length ns = length tokens \<and>
      (\<forall>i<length tokens.
         ns ! i = variable s @ tokens ! i @ file_type s \<and>
         us ! i = (http_dir s @ dataset s @ ''/'' @ lev_type s @ ''/'') @ ns ! i \<and>
         suffix (ns ! i) (us ! i) \<and>
         (after_last_slash (us ! i) = ns ! i \<longleftrightarrow> CHR ''/'' \<notin> set (ns ! i))))"
proof
  show "\<exists>u n. filepaths_expr (s\<lparr>time := Str token\<rparr>) = Str u \<and>
      filename_expr (s\<lparr>time := Str token\<rparr>) = Str n \<and>
      n = variable s @ token @ file_type s \<and>
      u = (http_dir s @ dataset s @ ''/'' @ lev_type s @ ''/'') @ n \<and> suffix n u \<and>
      (after_last_slash u = n \<longleftrightarrow> CHR ''/'' \<notin> set n)"
    using path_is_dir_plus_name [of "http_dir s" "dataset s" "lev_type s" "variable s" token "file_type s"]
    by (simp add: filepaths_expr_Str filename_expr_Str)
next
  let ?us = "map (\<lambda>token. http_dir s @ dataset s @ ''/'' @ lev_type s @ ''/'' @
                              variable s @ token @ file_type s) tokens"
  let ?ns = "map (\<lambda>token. variable s @ token @ file_type s) tokens"
  have a: "filepaths_expr (s\<lparr>time := Series tokens\<rparr>) = Series ?us"
    by (simp add: filepaths_expr_Series)
  have b: "filename_expr (s\<lparr>time := Series tokens\<rparr>) = Series ?ns"
    by (simp add: filename_expr_Series)
  have c: "\<forall>i<length tokens.
         ?ns ! i = variable s @ tokens ! i @ file_type s \<and>
         ?us ! i = (http_dir s @ dataset s @ ''/'' @ lev_type s @ ''/'') @ ?ns ! i \<and>
         suffix (?ns ! i) (?us ! i) \<and>
         (after_last_slash (?us ! i) = ?ns ! i \<longleftrightarrow> CHR ''/'' \<notin> set (?ns ! i))"
  proof (intro allI impI)
    fix i assume i: "i < length tokens"
    show "?ns ! i = variable s @ tokens ! i @ file_type s \<and>
         ?us ! i = (http_dir s @ dataset s @ ''/'' @ lev_type s @ ''/'') @ ?ns ! i \<and>
         suffix (?ns ! i) (?us ! i) \<and>
         (after_last_slash (?us ! i) = ?ns ! i \<longleftrightarrow> CHR ''/'' \<notin> set (?ns ! i))"
      using path_is_dir_plus_name [of "http_dir s" "dataset s" "lev_type s" "variable s" "tokens ! i" "file_type s"] i
      by simp
  qed
  have "length ?us = length tokens" "length ?ns = length tokens" by simp_all
  with a b c show "\<exists>us ns. filepaths_expr (s\<lparr>time := Series tokens\<rparr>) = Series us \<and>
      filename_expr (s\<lparr>time := Series tokens\<rparr>) = Series ns \<and>
      length us = length tokens \<and> length ns = length tokens \<and>
      (\<forall>i<length tokens.
         ns ! i = variable s @ tokens ! i @ file_type s \<and>
         us ! i = (http_dir s @ dataset s @ ''/'' @ lev_type s @ ''/'') @ ns ! i \<and>
         suffix (ns ! i) (us ! i) \<and>
         (after_last_slash (us ! i) = ns ! i \<longleftrightarrow> CHR ''/'' \<notin> set (ns ! i)))"
    by blast
qed

text \<open>The year \<open>2010\<close> of line 382, and a Series of one year.\<close>

theorem url_is_directory_plus_filename_witness:
  "after_last_slash ''https://downloads.psl.noaa.gov/Datasets/ncep.reanalysis.dailyavgs/surface/air.sig995.2010.nc'' =
     ''air.sig995.2010.nc'' \<and>
   suffix ''air.sig995.2010.nc''
     ''https://downloads.psl.noaa.gov/Datasets/ncep.reanalysis.dailyavgs/surface/air.sig995.2010.nc'' \<and>
   after_last_slash ''https://downloads.psl.noaa.gov/Datasets/ncep.reanalysis.dailyavgs/surface/air.sig995.1965.nc'' =
     ''air.sig995.1965.nc'' \<and>
   suffix ''air.sig995.1965.nc''
     ''https://downloads.psl.noaa.gov/Datasets/ncep.reanalysis.dailyavgs/surface/air.sig995.1965.nc''"
proof -
  let ?s = "noaa ''https://downloads.psl.noaa.gov/Datasets/'' (Str ''2010'')"
  note th = url_is_directory_plus_filename [where s = ?s and token = "''2010''" and tokens = "[''1965'']"]
  have c: "http_dir ?s = ''https://downloads.psl.noaa.gov/Datasets/''"
    "dataset ?s = ''ncep.reanalysis.dailyavgs''" "lev_type ?s = ''surface''"
    "variable ?s = ''air.sig995.''" "file_type ?s = ''.nc''"
    by (simp_all add: noaa_def)
  from th obtain u n where one: "n = variable ?s @ ''2010'' @ file_type ?s"
      "u = (http_dir ?s @ dataset ?s @ ''/'' @ lev_type ?s @ ''/'') @ n" "suffix n u"
      "after_last_slash u = n \<longleftrightarrow> CHR ''/'' \<notin> set n"
    by blast
  have n: "n = ''air.sig995.2010.nc''"
    using one(1) by (simp add: c)
  have u: "u = ''https://downloads.psl.noaa.gov/Datasets/ncep.reanalysis.dailyavgs/surface/air.sig995.2010.nc''"
    using one(2) by (simp add: c n)
  have "CHR ''/'' \<notin> set n"
    by (simp add: n)
  with one(3,4) have a: "suffix n u" "after_last_slash u = n"
    by blast+
  from th obtain us ns where many: "\<forall>i<length [''1965''].
         ns ! i = variable ?s @ [''1965''] ! i @ file_type ?s \<and>
         us ! i = (http_dir ?s @ dataset ?s @ ''/'' @ lev_type ?s @ ''/'') @ ns ! i \<and>
         suffix (ns ! i) (us ! i) \<and>
         (after_last_slash (us ! i) = ns ! i \<longleftrightarrow> CHR ''/'' \<notin> set (ns ! i))"
    by blast
  have "(0::nat) < length [''1965'']"
    by simp
  with many have m: "ns ! 0 = variable ?s @ [''1965''] ! 0 @ file_type ?s"
      "us ! 0 = (http_dir ?s @ dataset ?s @ ''/'' @ lev_type ?s @ ''/'') @ ns ! 0"
      "suffix (ns ! 0) (us ! 0)"
      "after_last_slash (us ! 0) = ns ! 0 \<longleftrightarrow> CHR ''/'' \<notin> set (ns ! 0)"
    by blast+
  have n0: "ns ! 0 = ''air.sig995.1965.nc''"
    using m(1) by (simp add: c)
  have u0: "us ! 0 = ''https://downloads.psl.noaa.gov/Datasets/ncep.reanalysis.dailyavgs/surface/air.sig995.1965.nc''"
    using m(2) by (simp add: c n0)
  have "CHR ''/'' \<notin> set (ns ! 0)"
    by (simp add: n0)
  with m(3,4) have b: "suffix (ns ! 0) (us ! 0)" "after_last_slash (us ! 0) = ns ! 0"
    by blast+
  from a b show ?thesis
    unfolding n u n0 u0 by blast
qed

text \<open>
  A token with a \<open>/\<close> in it: the local name then holds a \<open>/\<close>, which no segment of
  a path does, and what follows the last \<open>/\<close> of the path is \<open>65.nc\<close>, not the local
  name.
\<close>

theorem filename_with_slash_counterexample:
  "filepaths_expr (noaa ''https://downloads.psl.noaa.gov/Datasets/'' (Str ''19/65'')) =
     Str ''https://downloads.psl.noaa.gov/Datasets/ncep.reanalysis.dailyavgs/surface/air.sig995.19/65.nc'' \<and>
   filename_expr (noaa ''https://downloads.psl.noaa.gov/Datasets/'' (Str ''19/65'')) =
     Str ''air.sig995.19/65.nc'' \<and>
   after_last_slash ''https://downloads.psl.noaa.gov/Datasets/ncep.reanalysis.dailyavgs/surface/air.sig995.19/65.nc'' =
     ''65.nc'' \<and>
   ''65.nc'' \<noteq> ''air.sig995.19/65.nc'' \<and>
   CHR ''/'' \<in> set ''air.sig995.19/65.nc''"
  by (simp add: noaa_def filepaths_expr_def filename_expr_def after_last_slash_def)

subsection \<open>The five years\<close>

text \<open>
  C10. \<^verbatim>\<open>range(1965, 1970)\<close> is the five years 1965 to 1969 in ascending order, 1970
  excluded, and the cell of lines 452 to 455 leaves their decimal strings in \<open>time\<close>. For
  every template the five paths are pairwise distinct, and so are the five local names.
\<close>

theorem five_years_distinct:
  "py_range 1965 1970 = [1965, 1966, 1967, 1968, 1969] \<and>
   time (cell_five_years s) = Series [''1965'', ''1966'', ''1967'', ''1968'', ''1969''] \<and>
   (\<exists>urls. filepaths (cell_five_years s) = Series urls \<and> length urls = 5 \<and> distinct urls) \<and>
   (\<exists>names. filename_expr (cell_five_years s) = Series names \<and> length names = 5 \<and> distinct names)"
proof -
  have r: "py_range 1965 1970 = [1965, 1966, 1967, 1968, 1969]"
    by code_simp
  have d: "distinct [''1965'', ''1966'', ''1967'', ''1968'', ''1969'']"
    by simp
  have u: "\<exists>urls. filepaths (cell_five_years s) = Series urls \<and> length urls = 5 \<and> distinct urls"
    using distinct_wrap [OF d, of "http_dir s @ dataset s @ ''/'' @ lev_type s @ ''/'' @ variable s" "file_type s"]
    by (simp add: filepaths_cell_five_years)
  have "filename_expr (cell_five_years s) =
          Series (map (\<lambda>token. variable s @ token @ file_type s) [''1965'', ''1966'', ''1967'', ''1968'', ''1969''])"
    by (simp add: filename_expr_Series [OF time_cell_five_years] template_cell_five_years)
  then have n: "\<exists>names. filename_expr (cell_five_years s) = Series names \<and> length names = 5 \<and> distinct names"
    using distinct_wrap [OF d, of "variable s" "file_type s"] by simp
  from r time_cell_five_years u n show ?thesis by blast
qed

end
